theory Spec2Isabelle
  imports Main "HOL-Library.AList"
begin

section \<open>The preprocessor fragment used by the export headers\<close>

text \<open>
  The three files \<^verbatim>\<open>jxl_export.h\<close>, \<^verbatim>\<open>jxl_cms_export.h\<close> and
  \<^verbatim>\<open>jxl/jxl_threads_export.h\<close> consist of preprocessor directives only:
  \<^verbatim>\<open>#ifdef\<close>, \<^verbatim>\<open>#ifndef\<close>, \<^verbatim>\<open>#elif defined(..)\<close>, \<^verbatim>\<open>#else\<close>,
  \<^verbatim>\<open>#endif\<close> and \<^verbatim>\<open>#define\<close> of object-like macros. A replacement list is a
  list of preprocessing tokens; white space between tokens is not recorded.
\<close>

datatype pp_token = Ident string | Punct string | StringLit string | PPNumber string

text \<open>
  The macro table of a translation unit: macro names with their replacement lists. A
  lookup (\<open>map_of\<close>) takes the first entry of a name and \<^verbatim>\<open>#define\<close> replaces
  that entry. Only object-like macros occur in the headers, and only those are modelled.
\<close>

type_synonym macro_table = "(string \<times> pp_token list) list"

datatype diagnostic = Redefined string

record pp_state =
  macros :: macro_table
  diags :: "diagnostic list"

type_synonym directive = "pp_state \<Rightarrow> pp_state"

definition is_defined :: "pp_state \<Rightarrow> string \<Rightarrow> bool" where
  "is_defined st n = (map_of (macros st) n \<noteq> None)"

definition defined_names :: "pp_state \<Rightarrow> string set" where
  "defined_names st = fst ` set (macros st)"

text \<open>
  \<^verbatim>\<open>#define n body\<close>. Defining a name that is already a macro with a different
  replacement list is the redefinition that compilers diagnose (C11 6.10.3p2); the new
  definition then takes effect. Defining it again with the same list is silent.
\<close>

definition pp_define :: "string \<Rightarrow> pp_token list \<Rightarrow> directive" where
  "pp_define n body st =
     st\<lparr>macros := AList.update n body (macros st),
        diags := diags st @
          (case map_of (macros st) n of
             None \<Rightarrow> []
           | Some old \<Rightarrow> if old = body then [] else [Redefined n])\<rparr>"

text \<open>\<^verbatim>\<open>#ifdef n .. #else .. #endif\<close> and \<^verbatim>\<open>#ifndef n .. #else .. #endif\<close>.\<close>

definition pp_ifdef :: "string \<Rightarrow> directive \<Rightarrow> directive \<Rightarrow> directive" where
  "pp_ifdef n yes no st = (if is_defined st n then yes st else no st)"

definition pp_ifndef :: "string \<Rightarrow> directive \<Rightarrow> directive \<Rightarrow> directive" where
  "pp_ifndef n yes no st = (if is_defined st n then no st else yes st)"

text \<open>An absent \<^verbatim>\<open>#else\<close> branch, and the directives of a group in their order.\<close>

definition pp_skip :: directive where
  "pp_skip st = st"

fun pp_group :: "directive list \<Rightarrow> directive" where
  "pp_group [] st = st"
| "pp_group (d # ds) st = pp_group ds (d st)"

subsection \<open>Macro expansion\<close>

text \<open>
  Expansion of a token list at a point of use. An identifier that names a macro is
  replaced by its replacement list, which is rescanned with that name disabled
  (C11 6.10.3.4); every other token is kept. \<open>hide\<close> holds the disabled names.
\<close>

function expand :: "macro_table \<Rightarrow> string list \<Rightarrow> pp_token list \<Rightarrow> pp_token list" where
  "expand env hide [] = []"
| "expand env hide (Ident n # ts) =
     (if n \<in> set hide then [Ident n]
      else (case map_of env n of
              None \<Rightarrow> [Ident n]
            | Some body \<Rightarrow> expand env (n # hide) body)) @ expand env hide ts"
| "expand env hide (Punct s # ts) = Punct s # expand env hide ts"
| "expand env hide (StringLit s # ts) = StringLit s # expand env hide ts"
| "expand env hide (PPNumber s # ts) = PPNumber s # expand env hide ts"
  by pat_completeness auto
termination
proof (relation "measures [\<lambda>(env, hide, ts). card (fst ` set env - set hide),
                           \<lambda>(env, hide, ts). length ts]")
  show "wf (measures [\<lambda>(env, hide, ts). card (fst ` set env - set hide),
                      \<lambda>(env, hide, ts). length ts])"
    by simp
next
  fix env :: macro_table and hide :: "string list" and n :: string
    and ts body :: "pp_token list"
  assume fresh: "n \<notin> set hide" and bound: "map_of env n = Some body"
  from bound have "n \<in> fst ` set env"
    by (metis map_of_eq_None_iff option.distinct(1))
  with fresh have "fst ` set env - set (n # hide) \<subset> fst ` set env - set hide"
    by auto
  then have "card (fst ` set env - set (n # hide)) < card (fst ` set env - set hide)"
    by (intro psubset_card_mono) simp_all
  then show "((env, n # hide, body), (env, hide, Ident n # ts))
      \<in> measures [\<lambda>(env, hide, ts). card (fst ` set env - set hide),
                   \<lambda>(env, hide, ts). length ts]"
    by simp
qed simp_all

definition expansion :: "pp_state \<Rightarrow> string \<Rightarrow> pp_token list" where
  "expansion st n = expand (macros st) [] [Ident n]"

section \<open>The export headers\<close>

text \<open>The attribute forms that the headers write as replacement lists.\<close>

definition declspec :: "string \<Rightarrow> pp_token list" where
  "declspec a = [Ident ''__declspec'', Punct ''('', Ident a, Punct '')'']"

definition attribute_visibility :: "string \<Rightarrow> pp_token list" where
  "attribute_visibility v =
     [Ident ''__attribute__'', Punct ''('', Punct ''('', Ident ''visibility'', Punct ''('',
      StringLit v, Punct '')'', Punct '')'', Punct '')'']"

definition attribute_deprecated :: "pp_token list" where
  "attribute_deprecated =
     [Ident ''__attribute__'', Punct ''('', Punct ''('', Ident ''__deprecated__'',
      Punct '')'', Punct '')'']"

text \<open>\<^verbatim>\<open>jxl_export.h\<close>, lines 10 to 52.\<close>

definition jxl_export_h :: directive where
  "jxl_export_h =
     pp_ifndef ''JXL_EXPORT_H'' (pp_group [
       pp_define ''JXL_EXPORT_H'' [],
       pp_ifdef ''JXL_STATIC_DEFINE''
         (pp_group [
            pp_define ''JXL_EXPORT'' [],
            pp_define ''JXL_NO_EXPORT'' []])
         (pp_group [
            pp_ifdef ''_WIN32''
              (pp_ifdef ''JXL_INTERNAL_LIBRARY_BUILD''
                 (pp_define ''JXL_EXPORT'' (declspec ''dllexport''))
                 (pp_define ''JXL_EXPORT'' (declspec ''dllimport'')))
              (pp_ifdef ''JXL_INTERNAL_LIBRARY_BUILD''
                 (pp_define ''JXL_EXPORT'' (attribute_visibility ''default''))
                 (pp_define ''JXL_EXPORT'' [])),
            pp_define ''JXL_NO_EXPORT'' (attribute_visibility ''hidden'')]),
       pp_ifndef ''JXL_DEPRECATED''
         (pp_ifdef ''__GNUC__''
            (pp_define ''JXL_DEPRECATED'' attribute_deprecated)
            (pp_ifdef ''_MSC_VER''
               (pp_define ''JXL_DEPRECATED'' (declspec ''deprecated''))
               (pp_define ''JXL_DEPRECATED'' [])))
         pp_skip,
       pp_ifndef ''JXL_DEPRECATED_EXPORT''
         (pp_define ''JXL_DEPRECATED_EXPORT'' [Ident ''JXL_EXPORT'', Ident ''JXL_DEPRECATED''])
         pp_skip,
       pp_ifndef ''JXL_DEPRECATED_NO_EXPORT''
         (pp_define ''JXL_DEPRECATED_NO_EXPORT''
            [Ident ''JXL_NO_EXPORT'', Ident ''JXL_DEPRECATED''])
         pp_skip])
     pp_skip"

text \<open>\<^verbatim>\<open>jxl_cms_export.h\<close>, lines 10 to 52.\<close>

definition jxl_cms_export_h :: directive where
  "jxl_cms_export_h =
     pp_ifndef ''JXL_CMS_EXPORT_H'' (pp_group [
       pp_define ''JXL_CMS_EXPORT_H'' [],
       pp_ifdef ''JXL_STATIC_DEFINE''
         (pp_group [
            pp_define ''JXL_CMS_EXPORT'' [],
            pp_define ''JXL_CMS_NO_EXPORT'' []])
         (pp_group [
            pp_ifdef ''_WIN32''
              (pp_ifdef ''JXL_CMS_INTERNAL_LIBRARY_BUILD''
                 (pp_define ''JXL_CMS_EXPORT'' (declspec ''dllexport''))
                 (pp_define ''JXL_CMS_EXPORT'' (declspec ''dllimport'')))
              (pp_ifdef ''JXL_CMS_INTERNAL_LIBRARY_BUILD''
                 (pp_define ''JXL_CMS_EXPORT'' (attribute_visibility ''default''))
                 (pp_define ''JXL_CMS_EXPORT'' [])),
            pp_define ''JXL_CMS_NO_EXPORT'' (attribute_visibility ''hidden'')]),
       pp_ifndef ''JXL_CMS_DEPRECATED''
         (pp_ifdef ''__GNUC__''
            (pp_define ''JXL_CMS_DEPRECATED'' attribute_deprecated)
            (pp_ifdef ''_MSC_VER''
               (pp_define ''JXL_CMS_DEPRECATED'' (declspec ''deprecated''))
               (pp_define ''JXL_CMS_DEPRECATED'' [])))
         pp_skip,
       pp_ifndef ''JXL_CMS_DEPRECATED_EXPORT''
         (pp_define ''JXL_CMS_DEPRECATED_EXPORT''
            [Ident ''JXL_CMS_EXPORT'', Ident ''JXL_CMS_DEPRECATED''])
         pp_skip,
       pp_ifndef ''JXL_CMS_DEPRECATED_NO_EXPORT''
         (pp_define ''JXL_CMS_DEPRECATED_NO_EXPORT''
            [Ident ''JXL_CMS_NO_EXPORT'', Ident ''JXL_CMS_DEPRECATED''])
         pp_skip])
     pp_skip"

text \<open>\<^verbatim>\<open>jxl/jxl_threads_export.h\<close>, lines 10 to 52.\<close>

definition jxl_threads_export_h :: directive where
  "jxl_threads_export_h =
     pp_ifndef ''JXL_THREADS_EXPORT_H'' (pp_group [
       pp_define ''JXL_THREADS_EXPORT_H'' [],
       pp_ifdef ''JXL_STATIC_DEFINE''
         (pp_group [
            pp_define ''JXL_THREADS_EXPORT'' [],
            pp_define ''JXL_THREADS_NO_EXPORT'' []])
         (pp_group [
            pp_ifdef ''_WIN32''
              (pp_ifdef ''JXL_THREADS_INTERNAL_LIBRARY_BUILD''
                 (pp_define ''JXL_THREADS_EXPORT'' (declspec ''dllexport''))
                 (pp_define ''JXL_THREADS_EXPORT'' (declspec ''dllimport'')))
              (pp_ifdef ''JXL_THREADS_INTERNAL_LIBRARY_BUILD''
                 (pp_define ''JXL_THREADS_EXPORT'' (attribute_visibility ''default''))
                 (pp_define ''JXL_THREADS_EXPORT'' [])),
            pp_define ''JXL_THREADS_NO_EXPORT'' (attribute_visibility ''hidden'')]),
       pp_ifndef ''JXL_THREADS_DEPRECATED''
         (pp_ifdef ''__GNUC__''
            (pp_define ''JXL_THREADS_DEPRECATED'' attribute_deprecated)
            (pp_ifdef ''_MSC_VER''
               (pp_define ''JXL_THREADS_DEPRECATED'' (declspec ''deprecated''))
               (pp_define ''JXL_THREADS_DEPRECATED'' [])))
         pp_skip,
       pp_ifndef ''JXL_THREADS_DEPRECATED_EXPORT''
         (pp_define ''JXL_THREADS_DEPRECATED_EXPORT''
            [Ident ''JXL_THREADS_EXPORT'', Ident ''JXL_THREADS_DEPRECATED''])
         pp_skip,
       pp_ifndef ''JXL_THREADS_DEPRECATED_NO_EXPORT''
         (pp_define ''JXL_THREADS_DEPRECATED_NO_EXPORT''
            [Ident ''JXL_THREADS_NO_EXPORT'', Ident ''JXL_THREADS_DEPRECATED''])
         pp_skip])
     pp_skip"

subsection \<open>The three modules and their names\<close>

datatype module = Core | Cms | Threads

fun export_header :: "module \<Rightarrow> directive" where
  "export_header Core = jxl_export_h"
| "export_header Cms = jxl_cms_export_h"
| "export_header Threads = jxl_threads_export_h"

text \<open>
  The macro names of a module are its prefix followed by a fixed suffix; the static
  selector and the platform and compiler signals carry no module prefix.
\<close>

fun module_prefix :: "module \<Rightarrow> string" where
  "module_prefix Core = ''JXL''"
| "module_prefix Cms = ''JXL_CMS''"
| "module_prefix Threads = ''JXL_THREADS''"

definition guard_macro :: "module \<Rightarrow> string" where
  "guard_macro m = module_prefix m @ ''_EXPORT_H''"

definition internal_build_macro :: "module \<Rightarrow> string" where
  "internal_build_macro m = module_prefix m @ ''_INTERNAL_LIBRARY_BUILD''"

definition export_macro :: "module \<Rightarrow> string" where
  "export_macro m = module_prefix m @ ''_EXPORT''"

definition no_export_macro :: "module \<Rightarrow> string" where
  "no_export_macro m = module_prefix m @ ''_NO_EXPORT''"

definition deprecated_macro :: "module \<Rightarrow> string" where
  "deprecated_macro m = module_prefix m @ ''_DEPRECATED''"

definition deprecated_export_macro :: "module \<Rightarrow> string" where
  "deprecated_export_macro m = module_prefix m @ ''_DEPRECATED_EXPORT''"

definition deprecated_no_export_macro :: "module \<Rightarrow> string" where
  "deprecated_no_export_macro m = module_prefix m @ ''_DEPRECATED_NO_EXPORT''"

subsection \<open>The resolver with the module prefix as its parameter\<close>

text \<open>
  The specification describes one resolution algorithm whose only parameter is the
  module prefix. The definitions below write that algorithm once, group by group, over
  the names of module \<open>m\<close>; \<open>module_resolver\<close> is compared with the three headers
  further down.
\<close>

definition export_group :: "module \<Rightarrow> directive" where
  "export_group m =
     pp_ifdef ''JXL_STATIC_DEFINE''
       (pp_group [
          pp_define (export_macro m) [],
          pp_define (no_export_macro m) []])
       (pp_group [
          pp_ifdef ''_WIN32''
            (pp_ifdef (internal_build_macro m)
               (pp_define (export_macro m) (declspec ''dllexport''))
               (pp_define (export_macro m) (declspec ''dllimport'')))
            (pp_ifdef (internal_build_macro m)
               (pp_define (export_macro m) (attribute_visibility ''default''))
               (pp_define (export_macro m) [])),
          pp_define (no_export_macro m) (attribute_visibility ''hidden'')])"

definition deprecated_group :: "module \<Rightarrow> directive" where
  "deprecated_group m =
     pp_ifndef (deprecated_macro m)
       (pp_ifdef ''__GNUC__''
          (pp_define (deprecated_macro m) attribute_deprecated)
          (pp_ifdef ''_MSC_VER''
             (pp_define (deprecated_macro m) (declspec ''deprecated''))
             (pp_define (deprecated_macro m) [])))
       pp_skip"

definition deprecated_export_group :: "module \<Rightarrow> directive" where
  "deprecated_export_group m =
     pp_ifndef (deprecated_export_macro m)
       (pp_define (deprecated_export_macro m)
          [Ident (export_macro m), Ident (deprecated_macro m)])
       pp_skip"

definition deprecated_no_export_group :: "module \<Rightarrow> directive" where
  "deprecated_no_export_group m =
     pp_ifndef (deprecated_no_export_macro m)
       (pp_define (deprecated_no_export_macro m)
          [Ident (no_export_macro m), Ident (deprecated_macro m)])
       pp_skip"

definition module_resolver :: "module \<Rightarrow> directive" where
  "module_resolver m =
     pp_ifndef (guard_macro m) (pp_group [
       pp_define (guard_macro m) [],
       export_group m,
       deprecated_group m,
       deprecated_export_group m,
       deprecated_no_export_group m])
     pp_skip"

subsection \<open>The ambient configuration\<close>

text \<open>
  What the build environment supplies before a header is read: the static selector
  \<^verbatim>\<open>JXL_STATIC_DEFINE\<close>, the platform signal \<^verbatim>\<open>_WIN32\<close>, one
  \<^verbatim>\<open>.._INTERNAL_LIBRARY_BUILD\<close> flag per module and the compiler signals
  \<^verbatim>\<open>__GNUC__\<close> and \<^verbatim>\<open>_MSC_VER\<close>. Each flag is either absent (\<open>None\<close>) or
  defined with some replacement list; the headers only test whether it is defined.
  An ambient configuration binds nothing else: none of a module's own macros, and none
  of the identifiers that occur in the attribute forms.
\<close>

record config =
  static_define :: "pp_token list option"
  win32 :: "pp_token list option"
  jxl_internal_library_build :: "pp_token list option"
  jxl_cms_internal_library_build :: "pp_token list option"
  jxl_threads_internal_library_build :: "pp_token list option"
  gnuc :: "pp_token list option"
  msc_ver :: "pp_token list option"

fun internal_library_build :: "config \<Rightarrow> module \<Rightarrow> pp_token list option" where
  "internal_library_build cfg Core = jxl_internal_library_build cfg"
| "internal_library_build cfg Cms = jxl_cms_internal_library_build cfg"
| "internal_library_build cfg Threads = jxl_threads_internal_library_build cfg"

definition predefine :: "string \<Rightarrow> pp_token list option \<Rightarrow> macro_table \<Rightarrow> macro_table" where
  "predefine n v env = (case v of None \<Rightarrow> env | Some body \<Rightarrow> AList.update n body env)"

definition ambient :: "config \<Rightarrow> macro_table" where
  "ambient cfg =
     predefine ''JXL_STATIC_DEFINE'' (static_define cfg)
    (predefine ''_WIN32'' (win32 cfg)
    (predefine ''JXL_INTERNAL_LIBRARY_BUILD'' (jxl_internal_library_build cfg)
    (predefine ''JXL_CMS_INTERNAL_LIBRARY_BUILD'' (jxl_cms_internal_library_build cfg)
    (predefine ''JXL_THREADS_INTERNAL_LIBRARY_BUILD'' (jxl_threads_internal_library_build cfg)
    (predefine ''__GNUC__'' (gnuc cfg)
    (predefine ''_MSC_VER'' (msc_ver cfg) []))))))"

definition start :: "config \<Rightarrow> pp_state" where
  "start cfg = \<lparr>macros = ambient cfg, diags = []\<rparr>"

text \<open>A translation unit that includes the three headers one after the other.\<close>

definition include_all :: directive where
  "include_all = pp_group [jxl_export_h, jxl_cms_export_h, jxl_threads_export_h]"

subsection \<open>Example configurations\<close>

text \<open>
  A shared build on Windows with the Microsoft compiler, compiling the threading module
  itself; a shared build on a Unix-like system with a GNU-compatible compiler, compiling
  the core library itself; a static build on Windows; and a consumer of the shared
  libraries on a system that sets none of the platform and compiler signals.
\<close>

definition shared_windows_threads_build :: config where
  "shared_windows_threads_build =
     \<lparr>static_define = None, win32 = Some [PPNumber ''1''],
      jxl_internal_library_build = None, jxl_cms_internal_library_build = None,
      jxl_threads_internal_library_build = Some [PPNumber ''1''],
      gnuc = None, msc_ver = Some [PPNumber ''1939'']\<rparr>"

definition shared_unix_core_build :: config where
  "shared_unix_core_build =
     \<lparr>static_define = None, win32 = None,
      jxl_internal_library_build = Some [PPNumber ''1''],
      jxl_cms_internal_library_build = None, jxl_threads_internal_library_build = None,
      gnuc = Some [PPNumber ''13''], msc_ver = None\<rparr>"

definition static_windows_build :: config where
  "static_windows_build =
     \<lparr>static_define = Some [PPNumber ''1''], win32 = Some [PPNumber ''1''],
      jxl_internal_library_build = Some [PPNumber ''1''],
      jxl_cms_internal_library_build = Some [PPNumber ''1''],
      jxl_threads_internal_library_build = Some [PPNumber ''1''],
      gnuc = None, msc_ver = Some [PPNumber ''1939'']\<rparr>"

definition unknown_system_consumer :: config where
  "unknown_system_consumer =
     \<lparr>static_define = None, win32 = None, jxl_internal_library_build = None,
      jxl_cms_internal_library_build = None, jxl_threads_internal_library_build = None,
      gnuc = None, msc_ver = None\<rparr>"

section \<open>Properties of the model\<close>

subsection \<open>The headers are the prefix-parameterised resolver\<close>

lemmas example_defs = shared_windows_threads_build_def shared_unix_core_build_def
  static_windows_build_def unknown_system_consumer_def

lemmas attribute_defs = declspec_def attribute_visibility_def attribute_deprecated_def

lemmas name_defs = guard_macro_def internal_build_macro_def export_macro_def
  no_export_macro_def deprecated_macro_def deprecated_export_macro_def
  deprecated_no_export_macro_def

lemma export_header_resolver: "export_header m = module_resolver m"
  by (induct m)
     (simp_all add: jxl_export_h_def jxl_cms_export_h_def jxl_threads_export_h_def
        module_resolver_def export_group_def deprecated_group_def
        deprecated_export_group_def deprecated_no_export_group_def name_defs)

subsection \<open>Looking names up after each directive\<close>

lemma map_of_predefine:
  "map_of (predefine n v env) = (case v of None \<Rightarrow> map_of env | Some b \<Rightarrow> (map_of env)(n \<mapsto> b))"
  by (simp add: predefine_def update_conv' split: option.splits)

lemma lookup_ambient:
  "map_of (ambient cfg) n =
     (if n = ''JXL_STATIC_DEFINE'' then static_define cfg
      else if n = ''_WIN32'' then win32 cfg
      else if n = ''JXL_INTERNAL_LIBRARY_BUILD'' then jxl_internal_library_build cfg
      else if n = ''JXL_CMS_INTERNAL_LIBRARY_BUILD'' then jxl_cms_internal_library_build cfg
      else if n = ''JXL_THREADS_INTERNAL_LIBRARY_BUILD''
      then jxl_threads_internal_library_build cfg
      else if n = ''__GNUC__'' then gnuc cfg
      else if n = ''_MSC_VER'' then msc_ver cfg
      else None)"
  by (simp add: ambient_def map_of_predefine split: option.splits)

lemma is_defined_pp_define: "is_defined (pp_define n b st) k = (k = n \<or> is_defined st k)"
  by (simp add: is_defined_def pp_define_def update_conv')

lemma lookup_pp_define:
  "map_of (macros (pp_define n b st)) k = (if k = n then Some b else map_of (macros st) k)"
  by (simp add: pp_define_def update_conv')

lemma diags_pp_define:
  "diags (pp_define n b st) =
     diags st @ (case map_of (macros st) n of None \<Rightarrow> []
                 | Some old \<Rightarrow> if old = b then [] else [Redefined n])"
  by (simp add: pp_define_def)

lemma lookup_export_group:
  "map_of (macros (export_group m st)) k =
     (if k = no_export_macro m
      then Some (if is_defined st ''JXL_STATIC_DEFINE'' then [] else attribute_visibility ''hidden'')
      else if k = export_macro m
      then Some (if is_defined st ''JXL_STATIC_DEFINE'' then []
      else if is_defined st ''_WIN32''
      then (if is_defined st (internal_build_macro m)
            then declspec ''dllexport'' else declspec ''dllimport'')
      else (if is_defined st (internal_build_macro m)
            then attribute_visibility ''default'' else []))
      else map_of (macros st) k)"
  by (simp add: export_group_def pp_ifdef_def lookup_pp_define)

lemma lookup_deprecated_group:
  "map_of (macros (deprecated_group m st)) k =
     (if k = deprecated_macro m
      then Some (case map_of (macros st) k of
                   Some b \<Rightarrow> b
                 | None \<Rightarrow> if is_defined st ''__GNUC__'' then attribute_deprecated
                           else if is_defined st ''_MSC_VER'' then declspec ''deprecated''
                           else [])
      else map_of (macros st) k)"
  by (auto simp add: deprecated_group_def pp_ifdef_def pp_ifndef_def pp_skip_def
        lookup_pp_define is_defined_def)

lemma lookup_deprecated_export_group:
  "map_of (macros (deprecated_export_group m st)) k =
     (if k = deprecated_export_macro m
      then Some (case map_of (macros st) k of
                   Some b \<Rightarrow> b
                 | None \<Rightarrow> [Ident (export_macro m), Ident (deprecated_macro m)])
      else map_of (macros st) k)"
  by (auto simp add: deprecated_export_group_def pp_ifndef_def pp_skip_def
        lookup_pp_define is_defined_def)

lemma lookup_deprecated_no_export_group:
  "map_of (macros (deprecated_no_export_group m st)) k =
     (if k = deprecated_no_export_macro m
      then Some (case map_of (macros st) k of
                   Some b \<Rightarrow> b
                 | None \<Rightarrow> [Ident (no_export_macro m), Ident (deprecated_macro m)])
      else map_of (macros st) k)"
  by (auto simp add: deprecated_no_export_group_def pp_ifndef_def pp_skip_def
        lookup_pp_define is_defined_def)

lemmas lookup_groups = lookup_pp_define lookup_export_group lookup_deprecated_group
  lookup_deprecated_export_group lookup_deprecated_no_export_group

lemma is_defined_groups:
  "is_defined (export_group m st) k =
     (k = export_macro m \<or> k = no_export_macro m \<or> is_defined st k)"
  "is_defined (deprecated_group m st) k = (k = deprecated_macro m \<or> is_defined st k)"
  "is_defined (deprecated_export_group m st) k =
     (k = deprecated_export_macro m \<or> is_defined st k)"
  "is_defined (deprecated_no_export_group m st) k =
     (k = deprecated_no_export_macro m \<or> is_defined st k)"
  by (auto simp add: is_defined_def lookup_groups)

subsection \<open>The macro table after a first inclusion\<close>

text \<open>
  A first inclusion is one in a state where the include guard is not yet defined. The
  lemma gives the binding of every name afterwards, in any such state.
\<close>

lemma lookup_export_header:
  "\<not> is_defined st (guard_macro m) \<Longrightarrow>
   map_of (macros (export_header m st)) k =
    (if k = deprecated_no_export_macro m
     then Some (case map_of (macros st) k of
                  Some b \<Rightarrow> b
                | None \<Rightarrow> [Ident (no_export_macro m), Ident (deprecated_macro m)])
     else if k = deprecated_export_macro m
     then Some (case map_of (macros st) k of
                  Some b \<Rightarrow> b
                | None \<Rightarrow> [Ident (export_macro m), Ident (deprecated_macro m)])
     else if k = deprecated_macro m
     then Some (case map_of (macros st) k of
                  Some b \<Rightarrow> b
                | None \<Rightarrow> if is_defined st ''__GNUC__'' then attribute_deprecated
                          else if is_defined st ''_MSC_VER'' then declspec ''deprecated''
                          else [])
     else if k = no_export_macro m
     then Some (if is_defined st ''JXL_STATIC_DEFINE'' then []
                else attribute_visibility ''hidden'')
     else if k = export_macro m
     then Some (if is_defined st ''JXL_STATIC_DEFINE'' then []
                else if is_defined st ''_WIN32''
                then (if is_defined st (internal_build_macro m)
                      then declspec ''dllexport'' else declspec ''dllimport'')
                else (if is_defined st (internal_build_macro m)
                      then attribute_visibility ''default'' else []))
     else if k = guard_macro m then Some []
     else map_of (macros st) k)"
  by (induct m)
     (simp_all add: export_header_resolver module_resolver_def pp_ifndef_def
        lookup_groups is_defined_groups is_defined_pp_define name_defs)

text \<open>The same, started from an ambient configuration.\<close>

lemma lookup_resolved:
  "map_of (macros (export_header m (start cfg))) k =
    (if k = deprecated_no_export_macro m
     then Some [Ident (no_export_macro m), Ident (deprecated_macro m)]
     else if k = deprecated_export_macro m
     then Some [Ident (export_macro m), Ident (deprecated_macro m)]
     else if k = deprecated_macro m
     then Some (if gnuc cfg \<noteq> None then attribute_deprecated
                else if msc_ver cfg \<noteq> None then declspec ''deprecated''
                else [])
     else if k = no_export_macro m
     then Some (if static_define cfg \<noteq> None then []
                else attribute_visibility ''hidden'')
     else if k = export_macro m
     then Some (if static_define cfg \<noteq> None then []
                else if win32 cfg \<noteq> None
                then (if internal_library_build cfg m \<noteq> None
                      then declspec ''dllexport'' else declspec ''dllimport'')
                else (if internal_library_build cfg m \<noteq> None
                      then attribute_visibility ''default'' else []))
     else if k = guard_macro m then Some []
     else map_of (ambient cfg) k)"
proof -
  have "\<not> is_defined (start cfg) (guard_macro m)"
    by (induct m) (simp_all add: is_defined_def start_def lookup_ambient name_defs)
  then show ?thesis
    unfolding lookup_export_header [OF \<open>\<not> is_defined (start cfg) (guard_macro m)\<close>]
    by (induct m)
       (simp_all add: is_defined_def start_def lookup_ambient name_defs)
qed


lemma expansions_resolved:
  "expansion (export_header m (start cfg)) (export_macro m) =
     (if static_define cfg \<noteq> None then []
      else if win32 cfg \<noteq> None
      then (if internal_library_build cfg m \<noteq> None
            then declspec ''dllexport'' else declspec ''dllimport'')
      else (if internal_library_build cfg m \<noteq> None
            then attribute_visibility ''default'' else []))"
  "expansion (export_header m (start cfg)) (no_export_macro m) =
     (if static_define cfg \<noteq> None then [] else attribute_visibility ''hidden'')"
  "expansion (export_header m (start cfg)) (deprecated_macro m) =
     (if gnuc cfg \<noteq> None then attribute_deprecated
      else if msc_ver cfg \<noteq> None then declspec ''deprecated''
      else [])"
  "expansion (export_header m (start cfg)) (deprecated_export_macro m) =
     expansion (export_header m (start cfg)) (export_macro m) @
     expansion (export_header m (start cfg)) (deprecated_macro m)"
  "expansion (export_header m (start cfg)) (deprecated_no_export_macro m) =
     expansion (export_header m (start cfg)) (no_export_macro m) @
     expansion (export_header m (start cfg)) (deprecated_macro m)"
  by (induct m;
      simp add: expansion_def lookup_resolved lookup_ambient name_defs declspec_def
        attribute_visibility_def attribute_deprecated_def del: export_header.simps)+

subsection \<open>Diagnostics\<close>

lemma diags_groups:
  "\<not> is_defined st (export_macro m) \<Longrightarrow> \<not> is_defined st (no_export_macro m) \<Longrightarrow>
   export_macro m \<noteq> no_export_macro m \<Longrightarrow> diags (export_group m st) = diags st"
  "diags (deprecated_group m st) = diags st"
  "diags (deprecated_export_group m st) = diags st"
  "diags (deprecated_no_export_group m st) = diags st"
  by (auto simp add: export_group_def deprecated_group_def deprecated_export_group_def
        deprecated_no_export_group_def pp_ifdef_def pp_ifndef_def pp_skip_def
        diags_pp_define lookup_pp_define is_defined_def)

lemma diags_first_inclusion:
  "\<not> is_defined st (guard_macro m) \<Longrightarrow> \<not> is_defined st (export_macro m) \<Longrightarrow>
   \<not> is_defined st (no_export_macro m) \<Longrightarrow> diags (export_header m st) = diags st"
  by (induct m)
     (simp_all add: export_header_resolver module_resolver_def pp_ifndef_def
        diags_groups diags_pp_define lookup_pp_define is_defined_def name_defs)

lemma diags_resolved: "diags (export_header m (start cfg)) = []"
  by (induct m)
     (simp_all add: export_header_resolver module_resolver_def pp_ifndef_def
        diags_groups diags_pp_define lookup_pp_define is_defined_def
        start_def lookup_ambient name_defs)

subsection \<open>The include guard\<close>

lemma header_skips: "is_defined st (guard_macro m) \<Longrightarrow> export_header m st = st"
  by (simp add: export_header_resolver module_resolver_def pp_ifndef_def pp_skip_def)

lemma guard_defined_after: "is_defined (export_header m st) (guard_macro m)"
proof (cases "is_defined st (guard_macro m)")
  case True
  then show ?thesis by (simp add: header_skips)
next
  case False
  then have "map_of (macros (export_header m st)) (guard_macro m) = Some []"
    by (induct m) (simp_all add: lookup_export_header name_defs del: export_header.simps)
  then show ?thesis by (simp add: is_defined_def)
qed

lemma header_twice: "export_header m (export_header m st) = export_header m st"
  by (rule header_skips) (rule guard_defined_after)

lemma header_repeated: "(export_header m ^^ Suc n) st = export_header m st"
  by (induct n) (simp_all add: header_twice)

text \<open>A header only adds definitions, so a guard stays defined across other headers.\<close>

lemma is_defined_kept:
  assumes "is_defined st k"
  shows "is_defined (export_header m st) k"
proof (cases "is_defined st (guard_macro m)")
  case True
  with assms show ?thesis by (simp add: header_skips)
next
  case False
  from assms show ?thesis
    unfolding is_defined_def lookup_export_header [OF False] by simp
qed

lemma header_after_other:
  "export_header m (export_header m' (export_header m st)) =
     export_header m' (export_header m st)"
  by (rule header_skips) (rule is_defined_kept, rule guard_defined_after)

subsection \<open>Names bound by a first inclusion\<close>

lemma defined_names_iff: "k \<in> defined_names st \<longleftrightarrow> is_defined st k"
  by (simp add: defined_names_def is_defined_def map_of_eq_None_iff)

lemma module_names_not_ambient:
  "map_of (ambient cfg) (guard_macro m) = None"
  "map_of (ambient cfg) (export_macro m) = None"
  "map_of (ambient cfg) (no_export_macro m) = None"
  "map_of (ambient cfg) (deprecated_macro m) = None"
  "map_of (ambient cfg) (deprecated_export_macro m) = None"
  "map_of (ambient cfg) (deprecated_no_export_macro m) = None"
  by (induct m; simp add: lookup_ambient name_defs)+

lemma macros_start: "macros (start cfg) = ambient cfg"
  by (simp add: start_def)

lemma is_defined_resolved:
  "is_defined (export_header m (start cfg)) k \<longleftrightarrow>
     k \<in> {guard_macro m, export_macro m, no_export_macro m, deprecated_macro m,
           deprecated_export_macro m, deprecated_no_export_macro m} \<or>
     is_defined (start cfg) k"
  unfolding is_defined_def lookup_resolved macros_start by auto

lemma new_names:
  "defined_names (export_header m (start cfg)) - defined_names (start cfg) =
     {guard_macro m, export_macro m, no_export_macro m, deprecated_macro m,
      deprecated_export_macro m, deprecated_no_export_macro m}"
proof (rule set_eqI)
  fix k
  let ?six = "{guard_macro m, export_macro m, no_export_macro m, deprecated_macro m,
      deprecated_export_macro m, deprecated_no_export_macro m}"
  have fresh: "\<not> is_defined (start cfg) k" if "k \<in> ?six"
    using that unfolding is_defined_def macros_start
    by (auto simp add: module_names_not_ambient)
  have "k \<in> defined_names (export_header m (start cfg)) - defined_names (start cfg) \<longleftrightarrow>
        (k \<in> ?six \<or> is_defined (start cfg) k) \<and> \<not> is_defined (start cfg) k"
    unfolding Diff_iff defined_names_iff is_defined_resolved ..
  also have "\<dots> \<longleftrightarrow> k \<in> ?six"
    using fresh by blast
  finally show "k \<in> defined_names (export_header m (start cfg)) - defined_names (start cfg)
      \<longleftrightarrow> k \<in> ?six" .
qed

subsection \<open>Including the three headers in one translation unit\<close>

lemma include_all_unfold:
  "include_all st = export_header Threads (export_header Cms (export_header Core st))"
  by (simp add: include_all_def)

lemma expansions_include_all:
  "expansion (include_all (start cfg)) (export_macro m) =
     expansion (export_header m (start cfg)) (export_macro m)"
  "expansion (include_all (start cfg)) (no_export_macro m) =
     expansion (export_header m (start cfg)) (no_export_macro m)"
  by (induct m;
      simp add: include_all_unfold expansions_resolved expansion_def lookup_export_header
        lookup_resolved is_defined_def lookup_ambient name_defs attribute_defs
        del: export_header.simps)+

section \<open>The claims\<close>

text \<open>
  Claim C1. In a shared build (\<^verbatim>\<open>JXL_STATIC_DEFINE\<close> absent) the export token of every
  module follows the decision table: with \<^verbatim>\<open>_WIN32\<close> defined it expands to
  \<^verbatim>\<open>__declspec(dllexport)\<close> when the module's internal-build flag is defined and to
  \<^verbatim>\<open>__declspec(dllimport)\<close> otherwise; without \<^verbatim>\<open>_WIN32\<close> it expands to the
  default-visibility attribute when the internal-build flag is defined and to nothing
  otherwise. The hidden token expands to the hidden-visibility attribute on both
  platforms and in both roles.
\<close>

theorem shared_export_decision_table:
  "static_define cfg = None \<Longrightarrow>
   expansion (export_header m (start cfg)) (export_macro m) =
     (if win32 cfg \<noteq> None
      then (if internal_library_build cfg m \<noteq> None
            then declspec ''dllexport'' else declspec ''dllimport'')
      else (if internal_library_build cfg m \<noteq> None
            then attribute_visibility ''default'' else [])) \<and>
   expansion (export_header m (start cfg)) (no_export_macro m) =
     attribute_visibility ''hidden''"
  by (simp add: expansions_resolved del: export_header.simps)

theorem shared_export_decision_table_witness:
  "static_define shared_windows_threads_build = None \<and>
   expansion (jxl_threads_export_h (start shared_windows_threads_build)) ''JXL_THREADS_EXPORT'' =
     [Ident ''__declspec'', Punct ''('', Ident ''dllexport'', Punct '')''] \<and>
   expansion (jxl_threads_export_h (start shared_windows_threads_build))
       ''JXL_THREADS_NO_EXPORT'' =
     [Ident ''__attribute__'', Punct ''('', Punct ''('', Ident ''visibility'', Punct ''('',
      StringLit ''hidden'', Punct '')'', Punct '')'', Punct '')'']"
  using shared_export_decision_table [of shared_windows_threads_build Threads]
  by (simp add: example_defs attribute_defs name_defs)

text \<open>
  Claim C2. When \<^verbatim>\<open>JXL_STATIC_DEFINE\<close> is defined, the export token and the hidden
  token of each of the three modules expand to nothing, whatever the platform flag and
  the internal-build flags are.
\<close>

theorem static_tokens_empty:
  "static_define cfg \<noteq> None \<Longrightarrow>
   expansion (export_header m (start cfg)) (export_macro m) = [] \<and>
   expansion (export_header m (start cfg)) (no_export_macro m) = []"
  by (simp add: expansions_resolved del: export_header.simps)

theorem static_tokens_empty_witness:
  "static_define static_windows_build \<noteq> None \<and>
   expansion (jxl_export_h (start static_windows_build)) ''JXL_EXPORT'' = [] \<and>
   expansion (jxl_export_h (start static_windows_build)) ''JXL_NO_EXPORT'' = [] \<and>
   expansion (jxl_cms_export_h (start static_windows_build)) ''JXL_CMS_EXPORT'' = [] \<and>
   expansion (jxl_cms_export_h (start static_windows_build)) ''JXL_CMS_NO_EXPORT'' = [] \<and>
   expansion (jxl_threads_export_h (start static_windows_build)) ''JXL_THREADS_EXPORT'' = [] \<and>
   expansion (jxl_threads_export_h (start static_windows_build)) ''JXL_THREADS_NO_EXPORT'' = []"
  using static_tokens_empty [of static_windows_build Core]
    static_tokens_empty [of static_windows_build Cms]
    static_tokens_empty [of static_windows_build Threads]
  by (simp add: example_defs name_defs)

text \<open>
  Claim C3. The three headers are the one resolver \<open>module_resolver\<close> instantiated
  with their module prefix, and under one ambient configuration in which two modules
  have their internal-build flags set alike, the five tokens of the one module expand
  exactly as the five tokens of the other, with the same diagnostics.
\<close>

theorem resolvers_agree:
  assumes "(internal_library_build cfg m = None) = (internal_library_build cfg m' = None)"
  shows "export_header m = module_resolver m \<and>
    export_header m' = module_resolver m' \<and>
    expansion (export_header m (start cfg)) (export_macro m) =
      expansion (export_header m' (start cfg)) (export_macro m') \<and>
    expansion (export_header m (start cfg)) (no_export_macro m) =
      expansion (export_header m' (start cfg)) (no_export_macro m') \<and>
    expansion (export_header m (start cfg)) (deprecated_macro m) =
      expansion (export_header m' (start cfg)) (deprecated_macro m') \<and>
    expansion (export_header m (start cfg)) (deprecated_export_macro m) =
      expansion (export_header m' (start cfg)) (deprecated_export_macro m') \<and>
    expansion (export_header m (start cfg)) (deprecated_no_export_macro m) =
      expansion (export_header m' (start cfg)) (deprecated_no_export_macro m') \<and>
    diags (export_header m (start cfg)) = diags (export_header m' (start cfg))"
proof -
  have same: "export_header m = module_resolver m" "export_header m' = module_resolver m'"
    by (rule export_header_resolver)+
  have tokens:
    "expansion (export_header m (start cfg)) (export_macro m) =
       expansion (export_header m' (start cfg)) (export_macro m')"
    "expansion (export_header m (start cfg)) (no_export_macro m) =
       expansion (export_header m' (start cfg)) (no_export_macro m')"
    "expansion (export_header m (start cfg)) (deprecated_macro m) =
       expansion (export_header m' (start cfg)) (deprecated_macro m')"
    using assms by (simp_all add: expansions_resolved(1-3) del: export_header.simps)
  have composites:
    "expansion (export_header m (start cfg)) (deprecated_export_macro m) =
       expansion (export_header m' (start cfg)) (deprecated_export_macro m')"
    "expansion (export_header m (start cfg)) (deprecated_no_export_macro m) =
       expansion (export_header m' (start cfg)) (deprecated_no_export_macro m')"
    by (simp_all only: expansions_resolved(4,5) tokens)
  have "diags (export_header m (start cfg)) = diags (export_header m' (start cfg))"
    by (simp only: diags_resolved)
  with same tokens composites show ?thesis
    by (intro conjI)
qed

theorem resolvers_agree_witness:
  "(internal_library_build shared_windows_threads_build Core = None) =
     (internal_library_build shared_windows_threads_build Cms = None) \<and>
   expansion (jxl_export_h (start shared_windows_threads_build)) ''JXL_EXPORT'' =
     expansion (jxl_cms_export_h (start shared_windows_threads_build)) ''JXL_CMS_EXPORT'' \<and>
   expansion (jxl_export_h (start shared_windows_threads_build)) ''JXL_DEPRECATED_EXPORT'' =
     expansion (jxl_cms_export_h (start shared_windows_threads_build))
       ''JXL_CMS_DEPRECATED_EXPORT''"
  using resolvers_agree [of shared_windows_threads_build Core Cms]
  by (simp add: example_defs name_defs)

text \<open>
  Claim C4. In every ambient configuration the deprecated-and-exported token is bound to
  the export token followed by the deprecated token and expands to the expansion of the
  export token followed by the expansion of the deprecated token, with nothing in
  between; likewise the deprecated-and-hidden token with the hidden token.
\<close>

theorem composite_tokens_concatenate:
  "map_of (macros (export_header m (start cfg))) (deprecated_export_macro m) =
     Some [Ident (export_macro m), Ident (deprecated_macro m)] \<and>
   map_of (macros (export_header m (start cfg))) (deprecated_no_export_macro m) =
     Some [Ident (no_export_macro m), Ident (deprecated_macro m)] \<and>
   expansion (export_header m (start cfg)) (deprecated_export_macro m) =
     expansion (export_header m (start cfg)) (export_macro m) @
     expansion (export_header m (start cfg)) (deprecated_macro m) \<and>
   expansion (export_header m (start cfg)) (deprecated_no_export_macro m) =
     expansion (export_header m (start cfg)) (no_export_macro m) @
     expansion (export_header m (start cfg)) (deprecated_macro m)"
proof -
  have "deprecated_export_macro m \<noteq> deprecated_no_export_macro m"
    by (induct m) (simp_all add: name_defs)
  then show ?thesis
    by (simp add: lookup_resolved expansions_resolved(4,5) del: export_header.simps)
qed

theorem composite_tokens_concatenate_witness:
  "expansion (jxl_export_h (start shared_unix_core_build)) ''JXL_DEPRECATED_EXPORT'' =
     [Ident ''__attribute__'', Punct ''('', Punct ''('', Ident ''visibility'', Punct ''('',
      StringLit ''default'', Punct '')'', Punct '')'', Punct '')'',
      Ident ''__attribute__'', Punct ''('', Punct ''('', Ident ''__deprecated__'',
      Punct '')'', Punct '')''] \<and>
   expansion (jxl_export_h (start shared_unix_core_build)) ''JXL_DEPRECATED_NO_EXPORT'' =
     [Ident ''__attribute__'', Punct ''('', Punct ''('', Ident ''visibility'', Punct ''('',
      StringLit ''hidden'', Punct '')'', Punct '')'', Punct '')'',
      Ident ''__attribute__'', Punct ''('', Punct ''('', Ident ''__deprecated__'',
      Punct '')'', Punct '')'']"
  using composite_tokens_concatenate [of Core shared_unix_core_build]
    expansions_resolved(1-3) [of Core shared_unix_core_build]
  by (simp add: example_defs name_defs attribute_defs)

text \<open>
  Claim C5. Reading a module's header a second or any further time changes nothing: the
  whole preprocessor state, macro table and diagnostics, is the one left by the first
  reading, from any state, also when another module's header was read in between; and
  started from an ambient configuration no redefinition diagnostic is ever emitted.
\<close>

theorem reinclusion_is_noop:
  "(export_header m ^^ Suc n) st = export_header m st \<and>
   export_header m (export_header m' (export_header m st)) =
     export_header m' (export_header m st) \<and>
   diags ((export_header m ^^ Suc n) (start cfg)) = []"
  by (simp only: header_repeated header_after_other diags_resolved simp_thms)

theorem reinclusion_is_noop_witness:
  "jxl_export_h (jxl_export_h (jxl_export_h (start shared_unix_core_build))) =
     jxl_export_h (start shared_unix_core_build) \<and>
   diags (jxl_export_h (jxl_export_h (jxl_export_h (start shared_unix_core_build)))) = []"
  using reinclusion_is_noop
    [of "Suc (Suc 0)" Core "start shared_unix_core_build" Cms shared_unix_core_build]
  by auto

text \<open>
  Claim C6. In every ambient configuration the deprecated token depends on the two
  compiler signals only: it expands to \<^verbatim>\<open>__attribute__ ((__deprecated__))\<close> when
  \<^verbatim>\<open>__GNUC__\<close> is defined, otherwise to \<^verbatim>\<open>__declspec(deprecated)\<close> when
  \<^verbatim>\<open>_MSC_VER\<close> is defined, otherwise to nothing.
\<close>

theorem deprecated_token_by_compiler:
  "expansion (export_header m (start cfg)) (deprecated_macro m) =
     (if gnuc cfg \<noteq> None then attribute_deprecated
      else if msc_ver cfg \<noteq> None then declspec ''deprecated''
      else [])"
  by (rule expansions_resolved(3))

theorem deprecated_token_by_compiler_witness:
  "expansion (jxl_export_h (start shared_unix_core_build)) ''JXL_DEPRECATED'' =
     [Ident ''__attribute__'', Punct ''('', Punct ''('', Ident ''__deprecated__'',
      Punct '')'', Punct '')''] \<and>
   expansion (jxl_threads_export_h (start shared_windows_threads_build))
       ''JXL_THREADS_DEPRECATED'' =
     [Ident ''__declspec'', Punct ''('', Ident ''deprecated'', Punct '')''] \<and>
   expansion (jxl_cms_export_h (start unknown_system_consumer)) ''JXL_CMS_DEPRECATED'' = []"
  using deprecated_token_by_compiler [of Core shared_unix_core_build]
    deprecated_token_by_compiler [of Threads shared_windows_threads_build]
    deprecated_token_by_compiler [of Cms unknown_system_consumer]
  by (simp add: example_defs name_defs attribute_defs)

text \<open>
  Claim C7, as stated: whenever \<^verbatim>\<open>_WIN32\<close> is absent, or neither compiler signal is
  present, every token that the absent signal selects falls through to an empty
  binding. This fails for the export token: in a shared build without \<^verbatim>\<open>_WIN32\<close>,
  compiling the core library itself, \<^verbatim>\<open>JXL_EXPORT\<close> is the default-visibility
  attribute.
\<close>

theorem unrecognized_platform_counterexample:
  "\<not> (win32 \<lparr>static_define = None, win32 = None,
               jxl_internal_library_build = Some [PPNumber ''1''],
               jxl_cms_internal_library_build = None,
               jxl_threads_internal_library_build = None,
               gnuc = Some [PPNumber ''13''], msc_ver = None\<rparr> = None \<longrightarrow>
       expansion
         (jxl_export_h
            (start \<lparr>static_define = None, win32 = None,
                    jxl_internal_library_build = Some [PPNumber ''1''],
                    jxl_cms_internal_library_build = None,
                    jxl_threads_internal_library_build = None,
                    gnuc = Some [PPNumber ''13''], msc_ver = None\<rparr>))
         ''JXL_EXPORT'' = [])"
  using expansions_resolved(1)
    [of Core "\<lparr>static_define = None, win32 = None,
               jxl_internal_library_build = Some [PPNumber ''1''],
               jxl_cms_internal_library_build = None,
               jxl_threads_internal_library_build = None,
               gnuc = Some [PPNumber ''13''], msc_ver = None\<rparr>"]
  by (simp add: name_defs attribute_defs)

text \<open>
  Claim C7, amended. When neither compiler signal is present the deprecated token
  expands to nothing. When \<^verbatim>\<open>_WIN32\<close> is absent the export token takes the
  non-Windows binding: the default-visibility attribute in a shared build with the
  module's internal-build flag defined, and nothing otherwise. In every ambient
  configuration the header is processed without a diagnostic.
\<close>

theorem unrecognized_signals_fall_through:
  "(gnuc cfg = None \<and> msc_ver cfg = None \<longrightarrow>
      expansion (export_header m (start cfg)) (deprecated_macro m) = []) \<and>
   (win32 cfg = None \<longrightarrow>
      expansion (export_header m (start cfg)) (export_macro m) =
        (if static_define cfg = None \<and> internal_library_build cfg m \<noteq> None
         then attribute_visibility ''default'' else [])) \<and>
   diags (export_header m (start cfg)) = []"
  by (simp add: expansions_resolved(1-3) diags_resolved del: export_header.simps)

theorem unrecognized_signals_fall_through_witness:
  "gnuc unknown_system_consumer = None \<and> msc_ver unknown_system_consumer = None \<and>
   win32 unknown_system_consumer = None \<and>
   expansion (jxl_export_h (start unknown_system_consumer)) ''JXL_DEPRECATED'' = [] \<and>
   expansion (jxl_export_h (start unknown_system_consumer)) ''JXL_EXPORT'' = [] \<and>
   diags (jxl_export_h (start unknown_system_consumer)) = [] \<and>
   win32 shared_unix_core_build = None \<and>
   expansion (jxl_export_h (start shared_unix_core_build)) ''JXL_EXPORT'' =
     [Ident ''__attribute__'', Punct ''('', Punct ''('', Ident ''visibility'', Punct ''('',
      StringLit ''default'', Punct '')'', Punct '')'', Punct '')'']"
  using unrecognized_signals_fall_through [of unknown_system_consumer Core]
    unrecognized_signals_fall_through [of shared_unix_core_build Core]
  by (simp add: example_defs name_defs attribute_defs)

text \<open>
  Claim C8, as stated: one inclusion defines exactly the four macros export, hidden,
  deprecated-and-exported and deprecated-and-hidden, and nothing else. This fails: the
  names newly defined by \<^verbatim>\<open>jxl_export.h\<close> also contain \<^verbatim>\<open>JXL_DEPRECATED\<close> (and the
  include guard).
\<close>

theorem four_tokens_counterexample:
  "defined_names
     (jxl_export_h
        (start \<lparr>static_define = None, win32 = None,
                jxl_internal_library_build = Some [PPNumber ''1''],
                jxl_cms_internal_library_build = None,
                jxl_threads_internal_library_build = None,
                gnuc = Some [PPNumber ''13''], msc_ver = None\<rparr>)) -
   defined_names
     (start \<lparr>static_define = None, win32 = None,
             jxl_internal_library_build = Some [PPNumber ''1''],
             jxl_cms_internal_library_build = None,
             jxl_threads_internal_library_build = None,
             gnuc = Some [PPNumber ''13''], msc_ver = None\<rparr>) \<noteq>
   {''JXL_EXPORT'', ''JXL_NO_EXPORT'', ''JXL_DEPRECATED_EXPORT'',
    ''JXL_DEPRECATED_NO_EXPORT''}"
  (is "?new \<noteq> ?four")
proof
  assume four: "?new = ?four"
  have "''JXL_DEPRECATED'' \<in> ?new"
    unfolding export_header.simps(1) [symmetric] new_names
    by (simp add: name_defs)
  then have "''JXL_DEPRECATED'' \<in> ?four"
    by (simp only: four)
  then show False
    by simp
qed

text \<open>
  Claim C8, amended. One inclusion of a module's header, from an ambient configuration,
  defines exactly six macros: the include guard, the export token, the hidden token,
  the deprecated token and the two composite tokens; every macro of the ambient
  configuration keeps its binding.
\<close>

theorem six_macros_defined:
  "defined_names (export_header m (start cfg)) - defined_names (start cfg) =
     {guard_macro m, export_macro m, no_export_macro m, deprecated_macro m,
      deprecated_export_macro m, deprecated_no_export_macro m} \<and>
   card {guard_macro m, export_macro m, no_export_macro m, deprecated_macro m,
      deprecated_export_macro m, deprecated_no_export_macro m} = 6 \<and>
   (\<forall>k. k \<in> defined_names (start cfg) \<longrightarrow>
      map_of (macros (export_header m (start cfg))) k = map_of (macros (start cfg)) k)"
proof (intro conjI allI impI)
  show "defined_names (export_header m (start cfg)) - defined_names (start cfg) =
     {guard_macro m, export_macro m, no_export_macro m, deprecated_macro m,
      deprecated_export_macro m, deprecated_no_export_macro m}"
    by (rule new_names)
  show "card {guard_macro m, export_macro m, no_export_macro m, deprecated_macro m,
      deprecated_export_macro m, deprecated_no_export_macro m} = 6"
    by (induct m) (simp_all add: name_defs)
  fix k
  assume "k \<in> defined_names (start cfg)"
  then have bound: "map_of (ambient cfg) k \<noteq> None"
    by (simp add: defined_names_iff is_defined_def macros_start)
  then have "k \<notin> {guard_macro m, export_macro m, no_export_macro m, deprecated_macro m,
      deprecated_export_macro m, deprecated_no_export_macro m}"
    by (auto simp add: module_names_not_ambient)
  then show "map_of (macros (export_header m (start cfg))) k = map_of (macros (start cfg)) k"
    unfolding lookup_resolved macros_start by simp
qed

theorem six_macros_defined_witness:
  "defined_names (jxl_export_h (start shared_unix_core_build)) -
     defined_names (start shared_unix_core_build) =
     {''JXL_EXPORT_H'', ''JXL_EXPORT'', ''JXL_NO_EXPORT'', ''JXL_DEPRECATED'',
      ''JXL_DEPRECATED_EXPORT'', ''JXL_DEPRECATED_NO_EXPORT''} \<and>
   ''__GNUC__'' \<in> defined_names (start shared_unix_core_build) \<and>
   map_of (macros (jxl_export_h (start shared_unix_core_build))) ''__GNUC__'' =
     Some [PPNumber ''13'']"
proof -
  have g: "''__GNUC__'' \<in> defined_names (start shared_unix_core_build)"
    by (simp add: defined_names_iff is_defined_def start_def lookup_ambient example_defs)
  have "map_of (macros (start shared_unix_core_build)) ''__GNUC__'' = Some [PPNumber ''13'']"
    by (simp add: start_def lookup_ambient example_defs)
  with g six_macros_defined [of Core shared_unix_core_build] show ?thesis
    by (simp add: name_defs)
qed

text \<open>
  Claim C9. The static selector is the one flag \<^verbatim>\<open>JXL_STATIC_DEFINE\<close>, tested by all
  three headers: in every ambient configuration either it is defined and the export and
  hidden tokens of all three modules are empty, or it is absent and the hidden token of
  all three modules is the hidden-visibility attribute. This holds for each header read
  on its own and for the three headers read in one translation unit.
\<close>

theorem static_selector_shared:
  "(static_define cfg \<noteq> None \<and>
      (\<forall>m. expansion (export_header m (start cfg)) (export_macro m) = [] \<and>
           expansion (export_header m (start cfg)) (no_export_macro m) = [] \<and>
           expansion (include_all (start cfg)) (export_macro m) = [] \<and>
           expansion (include_all (start cfg)) (no_export_macro m) = [])) \<or>
   (static_define cfg = None \<and>
      (\<forall>m. expansion (export_header m (start cfg)) (no_export_macro m) =
             attribute_visibility ''hidden'' \<and>
           expansion (include_all (start cfg)) (no_export_macro m) =
             attribute_visibility ''hidden''))"
  by (simp add: expansions_include_all expansions_resolved(1,2) del: export_header.simps)

theorem static_selector_shared_witness:
  "static_define static_windows_build \<noteq> None \<and>
   expansion (include_all (start static_windows_build)) ''JXL_EXPORT'' = [] \<and>
   expansion (include_all (start static_windows_build)) ''JXL_CMS_NO_EXPORT'' = [] \<and>
   expansion (include_all (start static_windows_build)) ''JXL_THREADS_EXPORT'' = [] \<and>
   static_define shared_unix_core_build = None \<and>
   expansion (include_all (start shared_unix_core_build)) ''JXL_NO_EXPORT'' =
     expansion (include_all (start shared_unix_core_build)) ''JXL_THREADS_NO_EXPORT'' \<and>
   expansion (include_all (start shared_unix_core_build)) ''JXL_CMS_NO_EXPORT'' =
     [Ident ''__attribute__'', Punct ''('', Punct ''('', Ident ''visibility'', Punct ''('',
      StringLit ''hidden'', Punct '')'', Punct '')'', Punct '')'']"
proof -
  have static: "static_define static_windows_build \<noteq> None"
    and shared: "static_define shared_unix_core_build = None"
    by (simp_all add: example_defs)
  from static static_selector_shared [of static_windows_build]
  have a: "\<forall>m. expansion (export_header m (start static_windows_build)) (export_macro m) = [] \<and>
           expansion (export_header m (start static_windows_build)) (no_export_macro m) = [] \<and>
           expansion (include_all (start static_windows_build)) (export_macro m) = [] \<and>
           expansion (include_all (start static_windows_build)) (no_export_macro m) = []"
    by auto
  from shared static_selector_shared [of shared_unix_core_build]
  have b: "\<forall>m. expansion (export_header m (start shared_unix_core_build)) (no_export_macro m) =
             attribute_visibility ''hidden'' \<and>
           expansion (include_all (start shared_unix_core_build)) (no_export_macro m) =
             attribute_visibility ''hidden''"
    by auto
  from a [rule_format, of Core] a [rule_format, of Cms] a [rule_format, of Threads]
    b [rule_format, of Core] b [rule_format, of Cms] b [rule_format, of Threads]
    static shared
  show ?thesis
    by (simp add: name_defs attribute_defs)
qed

text \<open>
  Claim C10. On a first inclusion, in any state of the translation unit, a binding that
  the deprecated token or either composite token already has is left as it is, and it
  causes no diagnostic; the export and hidden tokens have no guard of their own and are
  bound to the value of the decision table whatever was bound to them before.
\<close>

theorem prebound_deprecated_tokens_kept:
  "\<not> is_defined st (guard_macro m) \<Longrightarrow>
   (map_of (macros st) (deprecated_macro m) = Some b \<longrightarrow>
      map_of (macros (export_header m st)) (deprecated_macro m) = Some b) \<and>
   (map_of (macros st) (deprecated_export_macro m) = Some b \<longrightarrow>
      map_of (macros (export_header m st)) (deprecated_export_macro m) = Some b) \<and>
   (map_of (macros st) (deprecated_no_export_macro m) = Some b \<longrightarrow>
      map_of (macros (export_header m st)) (deprecated_no_export_macro m) = Some b) \<and>
   map_of (macros (export_header m st)) (export_macro m) =
     Some (if is_defined st ''JXL_STATIC_DEFINE'' then []
           else if is_defined st ''_WIN32''
           then (if is_defined st (internal_build_macro m)
                 then declspec ''dllexport'' else declspec ''dllimport'')
           else (if is_defined st (internal_build_macro m)
                 then attribute_visibility ''default'' else [])) \<and>
   map_of (macros (export_header m st)) (no_export_macro m) =
     Some (if is_defined st ''JXL_STATIC_DEFINE'' then []
           else attribute_visibility ''hidden'') \<and>
   (\<not> is_defined st (export_macro m) \<and> \<not> is_defined st (no_export_macro m) \<longrightarrow>
      diags (export_header m st) = diags st)"
  by (induct m)
     (simp_all add: lookup_export_header diags_first_inclusion name_defs
        del: export_header.simps)

theorem prebound_deprecated_tokens_kept_witness:
  "\<not> is_defined
       \<lparr>macros = [(''JXL_DEPRECATED'', [Ident ''MY_DEPRECATED'']),
                  (''JXL_EXPORT'', [Ident ''MY_EXPORT''])], diags = []\<rparr> ''JXL_EXPORT_H'' \<and>
   map_of (macros
       \<lparr>macros = [(''JXL_DEPRECATED'', [Ident ''MY_DEPRECATED'']),
                  (''JXL_EXPORT'', [Ident ''MY_EXPORT''])], diags = []\<rparr>) ''JXL_DEPRECATED'' =
     Some [Ident ''MY_DEPRECATED''] \<and>
   map_of (macros (jxl_export_h
       \<lparr>macros = [(''JXL_DEPRECATED'', [Ident ''MY_DEPRECATED'']),
                  (''JXL_EXPORT'', [Ident ''MY_EXPORT''])], diags = []\<rparr>)) ''JXL_DEPRECATED'' =
     Some [Ident ''MY_DEPRECATED''] \<and>
   map_of (macros (jxl_export_h
       \<lparr>macros = [(''JXL_DEPRECATED'', [Ident ''MY_DEPRECATED'']),
                  (''JXL_EXPORT'', [Ident ''MY_EXPORT''])], diags = []\<rparr>)) ''JXL_EXPORT'' =
     Some [] \<and>
   \<not> is_defined \<lparr>macros = [(''JXL_DEPRECATED'', [Ident ''MY_DEPRECATED''])], diags = []\<rparr>
       ''JXL_EXPORT_H'' \<and>
   diags (jxl_export_h
       \<lparr>macros = [(''JXL_DEPRECATED'', [Ident ''MY_DEPRECATED''])], diags = []\<rparr>) = []"
  using prebound_deprecated_tokens_kept
    [of "\<lparr>macros = [(''JXL_DEPRECATED'', [Ident ''MY_DEPRECATED'']),
                    (''JXL_EXPORT'', [Ident ''MY_EXPORT''])], diags = []\<rparr>"
        Core "[Ident ''MY_DEPRECATED'']"]
    prebound_deprecated_tokens_kept
    [of "\<lparr>macros = [(''JXL_DEPRECATED'', [Ident ''MY_DEPRECATED''])], diags = []\<rparr>"
        Core "[Ident ''MY_DEPRECATED'']"]
  by (simp add: is_defined_def name_defs)

end
